theory Spec2Isabelle
  imports Complex_Main "HOL-Library.Sublist"
begin

section \<open>Trends page: latest market analysis per keyword\<close>

text \<open>
  \<^verbatim>\<open>getTrendsData\<close> (trends page) reads the rows of \<^verbatim>\<open>market_analysis\<close>
  ordered by \<^verbatim>\<open>analysis_date\<close> descending and keeps, in a JavaScript \<^verbatim>\<open>Map\<close>,
  the first row seen for every keyword:
  \<^verbatim>\<open>
  const latestByKeyword = new Map<string, MarketAnalysis>();
  ((analyses || []) as MarketAnalysis[]).forEach((analysis) => {
    if (!latestByKeyword.has(analysis.keyword)) {
      latestByKeyword.set(analysis.keyword, analysis);
    }
  });
  return { analyses: Array.from(latestByKeyword.values()), ... };
  \<close>
  Only the columns the function reads are fields of the record; the date is a day
  number (the database orders by it, the page never compares it).
\<close>

record market_analysis =
  ma_id :: int
  keyword :: string
  analysis_date :: int
  total_postings :: "int option"

text \<open>
  A JavaScript \<^verbatim>\<open>Map\<close> iterates in insertion order, and \<^verbatim>\<open>set\<close> on a key
  that is present keeps the key's position: an association list with unique keys.
\<close>

type_synonym ('k, 'v) js_map = "('k \<times> 'v) list"

definition map_has :: "('k, 'v) js_map \<Rightarrow> 'k \<Rightarrow> bool" where
  "map_has m k = (k \<in> set (map fst m))"

definition map_set :: "('k, 'v) js_map \<Rightarrow> 'k \<Rightarrow> 'v \<Rightarrow> ('k, 'v) js_map" where
  "map_set m k v =
     (if map_has m k then map (\<lambda>(k', v'). if k' = k then (k', v) else (k', v')) m
      else m @ [(k, v)])"

definition map_values :: "('k, 'v) js_map \<Rightarrow> 'v list" where
  "map_values m = map snd m"

text \<open>The body of the \<^verbatim>\<open>forEach\<close> callback, and the loop as a left fold.\<close>

definition latest_step ::
  "(string, market_analysis) js_map \<Rightarrow> market_analysis \<Rightarrow> (string, market_analysis) js_map" where
  "latest_step m analysis =
     (if \<not> map_has m (keyword analysis) then map_set m (keyword analysis) analysis else m)"

definition latestByKeyword :: "market_analysis list \<Rightarrow> (string, market_analysis) js_map" where
  "latestByKeyword analyses = foldl latest_step [] analyses"

text \<open>
  The \<^verbatim>\<open>analyses\<close> component of the result; \<^verbatim>\<open>None\<close> is the \<^verbatim>\<open>null\<close> data of a
  failed query (\<^verbatim>\<open>analyses || []\<close>).
\<close>

definition getTrendsData :: "market_analysis list option \<Rightarrow> market_analysis list" where
  "getTrendsData data =
     map_values (latestByKeyword (case data of None \<Rightarrow> [] | Some analyses \<Rightarrow> analyses))"

text \<open>
  Proof device: the rows of \<open>xs\<close> whose keyword is neither in \<open>seen\<close> nor carried by an
  earlier row of \<open>xs\<close>.
\<close>

fun first_rows :: "string set \<Rightarrow> market_analysis list \<Rightarrow> market_analysis list" where
  "first_rows seen [] = []"
| "first_rows seen (x # xs) =
     (if keyword x \<in> seen then first_rows seen xs
      else x # first_rows (insert (keyword x) seen) xs)"

section \<open>Dashboard data fetching\<close>

text \<open>
  Every page reads the database through the Supabase client and destructures the
  answer of the awaited query, \<^verbatim>\<open>const { data, count, error } = await query\<close>.
  The answer is a record; \<^verbatim>\<open>null\<close> is \<open>None\<close>.
\<close>

record 'row response =
  data :: "'row list option"
  count :: "nat option"
  error :: "string option"

text \<open>
  A row of \<^verbatim>\<open>company_reports\<close> (the columns the pages read, typed as in the
  generated \<^verbatim>\<open>Row\<close> type: \<^verbatim>\<open>verdict: string | null\<close>,
  \<^verbatim>\<open>total_score: number | null\<close>, \<^verbatim>\<open>quality_passed: boolean\<close>).
  Timestamps are seconds since the epoch.
\<close>

record company_report =
  report_id :: int
  company_id :: "int option"
  company_name :: string
  verdict :: "string option"
  total_score :: "real option"
  quality_passed :: bool
  cache_key :: "string option"
  cache_expires_at :: "int option"
  generated_at :: int

text \<open>
  The tail of each fetcher, after the \<^verbatim>\<open>await\<close>:
  \<^verbatim>\<open>
  if (error) { console.error(...); return { jobs: [], count: 0 }; }
  return { jobs: jobs || [], count: count || 0 };
  \<close>
  (\<^verbatim>\<open>getJobs\<close> of both job-list pages and \<^verbatim>\<open>getReports\<close> return the list with
  the count; \<^verbatim>\<open>getCompanies\<close> and \<^verbatim>\<open>getCompanyReports\<close> return the list alone).
\<close>

definition or_empty :: "'row list option \<Rightarrow> 'row list" where
  "or_empty d = (case d of None \<Rightarrow> [] | Some rows \<Rightarrow> rows)"

definition or_zero :: "nat option \<Rightarrow> nat" where
  "or_zero c = (case c of None \<Rightarrow> 0 | Some n \<Rightarrow> n)"

definition getJobs_result :: "'job response \<Rightarrow> 'job list \<times> nat" where
  "getJobs_result r =
     (if error r \<noteq> None then ([], 0) else (or_empty (data r), or_zero (count r)))"

definition getReports_result :: "company_report response \<Rightarrow> company_report list \<times> nat" where
  "getReports_result r =
     (if error r \<noteq> None then ([], 0) else (or_empty (data r), or_zero (count r)))"

definition getCompanies_result :: "'company response \<Rightarrow> 'company list" where
  "getCompanies_result r = (if error r \<noteq> None then [] else or_empty (data r))"

definition getCompanyReports_result :: "company_report response \<Rightarrow> company_report list" where
  "getCompanyReports_result r = (if error r \<noteq> None then [] else or_empty (data r))"

text \<open>
  What a page shows for a fetched list: \<^verbatim>\<open>rows.length > 0 ? rows.map(card) : emptyCard\<close>
  (the job list, the report list, the company grid and the report section of the
  company page all have this shape).
\<close>

datatype 'row list_view = Cards "'row list" | EmptyState

definition list_section :: "'row list \<Rightarrow> 'row list_view" where
  "list_section rows = (if length rows > 0 then Cards rows else EmptyState)"

subsection \<open>Reports of one company\<close>

text \<open>
  \<^verbatim>\<open>
  supabase.from('company_reports').select('*')
    .eq('company_id', companyId)
    .order('generated_at', { ascending: false })
    .limit(5)
  \<close>
  answered by a database that holds the rows \<open>tbl\<close>. The database may order rows of
  equal \<^verbatim>\<open>generated_at\<close> as it likes; the model keeps them in table order.
\<close>

definition company_reports_query :: "company_report list \<Rightarrow> int \<Rightarrow> company_report response" where
  "company_reports_query tbl companyId =
     \<lparr>data = Some (take 5 (sort_key (\<lambda>r. - generated_at r)
                (filter (\<lambda>r. company_id r = Some companyId) tbl))),
      count = None, error = None\<rparr>"

definition getCompanyReports :: "company_report list \<Rightarrow> int \<Rightarrow> company_report list" where
  "getCompanyReports tbl companyId =
     getCompanyReports_result (company_reports_query tbl companyId)"


section \<open>Verdict and score display\<close>

text \<open>
  JavaScript string helpers on 8-bit strings: \<^verbatim>\<open>toLowerCase\<close> maps the letters
  \<open>A\<close> to \<open>Z\<close> (codes 65 to 90) to \<open>a\<close> to \<open>z\<close>; \<^verbatim>\<open>s.includes(p)\<close> holds when
  \<open>p\<close> is a contiguous part of \<open>s\<close>.
\<close>

definition toLowerCase_char :: "char \<Rightarrow> char" where
  "toLowerCase_char c =
     (if 65 \<le> (of_char c :: nat) \<and> (of_char c :: nat) \<le> 90
      then char_of ((of_char c :: nat) + 32) else c)"

definition toLowerCase :: "string \<Rightarrow> string" where
  "toLowerCase s = map toLowerCase_char s"

fun str_includes :: "string \<Rightarrow> string \<Rightarrow> bool" where
  "str_includes [] p = (p = [])"
| "str_includes (c # s) p = (prefix p (c # s) \<or> str_includes s p)"

text \<open>
  \<^verbatim>\<open>getVerdictStyle\<close> of the company page (background and text class) and of the
  report page (the same with a border class):
  \<^verbatim>\<open>
  if (!verdict) return gray;
  if (verdict.toLowerCase().includes('no-go') || verdict.toLowerCase().includes('nogo')) return red;
  if (verdict.toLowerCase().includes('conditional')) return yellow;
  if (verdict.toLowerCase() === 'go') return green;
  return gray;
  \<close>
  \<^verbatim>\<open>!verdict\<close> holds for \<^verbatim>\<open>null\<close> and for the empty string.
\<close>

record verdict_style =
  bg :: string
  text_class :: string

record verdict_style_bordered = verdict_style +
  border :: string

definition getVerdictStyle :: "string option \<Rightarrow> verdict_style" where
  "getVerdictStyle v0 =
     (case v0 of
        None \<Rightarrow> \<lparr>bg = ''bg-gray-100'', text_class = ''text-gray-700''\<rparr>
      | Some v \<Rightarrow>
          if v = [] then \<lparr>bg = ''bg-gray-100'', text_class = ''text-gray-700''\<rparr>
          else if str_includes (toLowerCase v) ''no-go'' \<or> str_includes (toLowerCase v) ''nogo''
            then \<lparr>bg = ''bg-red-100'', text_class = ''text-red-700''\<rparr>
          else if str_includes (toLowerCase v) ''conditional''
            then \<lparr>bg = ''bg-yellow-100'', text_class = ''text-yellow-700''\<rparr>
          else if toLowerCase v = ''go''
            then \<lparr>bg = ''bg-green-100'', text_class = ''text-green-700''\<rparr>
          else \<lparr>bg = ''bg-gray-100'', text_class = ''text-gray-700''\<rparr>)"

definition getVerdictStyle_report :: "string option \<Rightarrow> verdict_style_bordered" where
  "getVerdictStyle_report v0 =
     (case v0 of
        None \<Rightarrow> \<lparr>bg = ''bg-gray-100'', text_class = ''text-gray-700'',
                 border = ''border-gray-300''\<rparr>
      | Some v \<Rightarrow>
          if v = [] then \<lparr>bg = ''bg-gray-100'', text_class = ''text-gray-700'',
                 border = ''border-gray-300''\<rparr>
          else if str_includes (toLowerCase v) ''no-go'' \<or> str_includes (toLowerCase v) ''nogo''
            then \<lparr>bg = ''bg-red-100'', text_class = ''text-red-700'',
                 border = ''border-red-300''\<rparr>
          else if str_includes (toLowerCase v) ''conditional''
            then \<lparr>bg = ''bg-yellow-100'', text_class = ''text-yellow-700'',
                 border = ''border-yellow-300''\<rparr>
          else if toLowerCase v = ''go''
            then \<lparr>bg = ''bg-green-100'', text_class = ''text-green-700'',
                 border = ''border-green-300''\<rparr>
          else \<lparr>bg = ''bg-gray-100'', text_class = ''text-gray-700'',
                 border = ''border-gray-300''\<rparr>)"

text \<open>
  \<^verbatim>\<open>getVerdictLabel\<close> of the report list page: a \<^verbatim>\<open>switch\<close> on the exact string.
  The labels are Korean texts; the constructors name them in English ("strongly
  recommended", "recommended", "conditionally recommended", "not recommended",
  "strongly not recommended", and "being analysed" for the default).
\<close>

datatype verdict_label =
  StronglyRecommended | Recommended | ConditionallyRecommended | NotRecommended
  | StronglyNotRecommended | BeingAnalysed

datatype badge_variant = Success | Warning | Danger | Default

definition getVerdictLabel :: "string option \<Rightarrow> verdict_label \<times> badge_variant" where
  "getVerdictLabel v0 =
     (if v0 = Some ''STRONG_YES'' then (StronglyRecommended, Success)
      else if v0 = Some ''YES'' then (Recommended, Success)
      else if v0 = Some ''CONDITIONAL'' then (ConditionallyRecommended, Warning)
      else if v0 = Some ''NO'' then (NotRecommended, Danger)
      else if v0 = Some ''STRONG_NO'' then (StronglyNotRecommended, Danger)
      else (BeingAnalysed, Default))"

text \<open>
  The score line of a card of the report list page,
  \<^verbatim>\<open>
  {report.total_score !== null && (
     <span className={report.total_score >= 70 ? 'text-green-600' :
                      report.total_score >= 50 ? 'text-yellow-600' : 'text-red-600'}>
       {report.total_score}...
  \<close>
  and of the company page, \<^verbatim>\<open>{report.total_score && (... toFixed(1) ... /5.0)}\<close>:
  nothing is shown for \<^verbatim>\<open>null\<close>, the bare number 0 for a score of 0 (the left
  operand of \<^verbatim>\<open>&&\<close> is rendered), and otherwise the score out of 5.0.
  \<open>OutOfFive s\<close> stands for the text \<^verbatim>\<open>s.toFixed(1)\<close> followed by \<^verbatim>\<open>/5.0\<close>; the
  decimal rounding of the floating-point number is not computed.
\<close>

definition score_class :: "real \<Rightarrow> string" where
  "score_class s =
     (if s \<ge> 70 then ''text-green-600'' else if s \<ge> 50 then ''text-yellow-600''
      else ''text-red-600'')"

definition ReportsPage_score :: "company_report \<Rightarrow> (string \<times> real) option" where
  "ReportsPage_score report =
     (case total_score report of None \<Rightarrow> None | Some s \<Rightarrow> Some (score_class s, s))"

datatype score_of_five = BareZero | OutOfFive real

definition CompanyPage_score :: "company_report \<Rightarrow> score_of_five option" where
  "CompanyPage_score report =
     (case total_score report of None \<Rightarrow> None
      | Some s \<Rightarrow> if s = 0 then Some BareZero else Some (OutOfFive s))"


section \<open>Cache revalidation endpoint\<close>

text \<open>
  The two \<^verbatim>\<open>POST\<close> handlers of \<^verbatim>\<open>/api/revalidate\<close>: the Node one calls
  \<^verbatim>\<open>revalidatePath\<close>, the edge one only acknowledges. A request is the value of its
  \<^verbatim>\<open>x-revalidate-secret\<close> header (\<^verbatim>\<open>headers.get\<close> gives \<^verbatim>\<open>null\<close> when the header is
  absent) and the outcome of \<^verbatim>\<open>await request.json()\<close>, which throws when the body is
  not JSON text (\<open>None\<close>).
\<close>

datatype json =
  JNull | JBool bool | JNum real | JStr string | JArr "json list"
  | JObj "(string \<times> json) list"

record request =
  x_revalidate_secret :: "string option"
  json_body :: "json option"

datatype js_error = TypeError

text \<open>
  \<^verbatim>\<open>body.path\<close>: reading a property of \<^verbatim>\<open>null\<close> throws a TypeError; an object gives
  the value of its member (the last one, should the JSON text repeat the key) or
  \<^verbatim>\<open>undefined\<close>; a boolean, number, string or array has no such property
  (\<^verbatim>\<open>undefined\<close>, here \<open>None\<close>).
\<close>

fun get_property :: "json \<Rightarrow> string \<Rightarrow> js_error + json option" where
  "get_property JNull k = Inl TypeError"
| "get_property (JObj members) k = Inr (map_of (rev members) k)"
| "get_property other k = Inr None"

text \<open>JavaScript truthiness of a JSON value.\<close>

fun truthy :: "json \<Rightarrow> bool" where
  "truthy JNull = False"
| "truthy (JBool b) = b"
| "truthy (JNum n) = (n \<noteq> 0)"
| "truthy (JStr s) = (s \<noteq> [])"
| "truthy (JArr xs) = True"
| "truthy (JObj members) = True"

text \<open>\<^verbatim>\<open>body.path || '/'\<close>, given the value of \<^verbatim>\<open>body.path\<close>.\<close>

definition path_or_root :: "json option \<Rightarrow> json" where
  "path_or_root p = (case p of None \<Rightarrow> JStr ''/'' | Some v \<Rightarrow> if truthy v then v else JStr ''/'')"

datatype response_body =
  ErrorBody string
  | Revalidated json
  | RevalidatedEdge json

record http_response =
  status :: nat
  payload :: response_body

text \<open>
  \<^verbatim>\<open>revalidatePath(path)\<close> of the framework, given the calls made so far: a string is
  taken as the path to revalidate; any other value (\<^verbatim>\<open>body.path\<close> may be any truthy
  JSON value) makes the call throw.
\<close>

fun revalidatePath :: "json \<Rightarrow> json list \<Rightarrow> js_error + json list" where
  "revalidatePath (JStr s) calls = Inr (calls @ [JStr s])"
| "revalidatePath other calls = Inl TypeError"

text \<open>
  The Node handler. The second component of the result lists the arguments of the
  calls of \<^verbatim>\<open>revalidatePath\<close> that went through, in order; the timestamp of the
  answer is left out. Everything after the secret check runs inside the \<^verbatim>\<open>try\<close>, so a
  throwing \<^verbatim>\<open>request.json()\<close>, \<^verbatim>\<open>body.path\<close> or \<^verbatim>\<open>revalidatePath\<close> ends in the
  \<^verbatim>\<open>catch\<close>.
  \<^verbatim>\<open>
  const secret = request.headers.get('x-revalidate-secret');
  if (secret !== config.api.revalidateSecret)
    return NextResponse.json({ error: 'Invalid secret' }, { status: 401 });
  try {
    const body = await request.json();
    const path = body.path || '/';
    revalidatePath(path);
    if (path === '/') {
      revalidatePath('/jobs'); revalidatePath('/companies');
      revalidatePath('/trends'); revalidatePath('/roadmap');
    }
    return NextResponse.json({ revalidated: true, path, timestamp: ... });
  } catch (error) {
    return NextResponse.json({ error: 'Revalidation failed' }, { status: 500 });
  }
  \<close>
\<close>

definition POST :: "string \<Rightarrow> request \<Rightarrow> http_response \<times> json list" where
  "POST revalidateSecret request =
     (if x_revalidate_secret request \<noteq> Some revalidateSecret
      then (\<lparr>status = 401, payload = ErrorBody ''Invalid secret''\<rparr>, [])
      else
        (case json_body request of
           None \<Rightarrow> (\<lparr>status = 500, payload = ErrorBody ''Revalidation failed''\<rparr>, [])
         | Some body \<Rightarrow>
             (case get_property body ''path'' of
                Inl e \<Rightarrow> (\<lparr>status = 500, payload = ErrorBody ''Revalidation failed''\<rparr>, [])
              | Inr p \<Rightarrow>
                  (let path = path_or_root p
                   in case revalidatePath path [] of
                        Inl e \<Rightarrow>
                          (\<lparr>status = 500, payload = ErrorBody ''Revalidation failed''\<rparr>, [])
                      | Inr calls \<Rightarrow>
                          (\<lparr>status = 200, payload = Revalidated path\<rparr>,
                           if path = JStr ''/''
                           then calls @ [JStr ''/jobs'', JStr ''/companies'', JStr ''/trends'',
                                         JStr ''/roadmap'']
                           else calls)))))"

text \<open>
  The edge handler: the same checks, no call of \<^verbatim>\<open>revalidatePath\<close> (the edge runtime
  does not support it), and a note in the answer.
\<close>

definition POST_edge :: "string \<Rightarrow> request \<Rightarrow> http_response \<times> json list" where
  "POST_edge revalidateSecret request =
     (if x_revalidate_secret request \<noteq> Some revalidateSecret
      then (\<lparr>status = 401, payload = ErrorBody ''Invalid secret''\<rparr>, [])
      else
        (case json_body request of
           None \<Rightarrow> (\<lparr>status = 500, payload = ErrorBody ''Revalidation failed''\<rparr>, [])
         | Some body \<Rightarrow>
             (case get_property body ''path'' of
                Inl e \<Rightarrow> (\<lparr>status = 500, payload = ErrorBody ''Revalidation failed''\<rparr>, [])
              | Inr p \<Rightarrow> (\<lparr>status = 200, payload = RevalidatedEdge (path_or_root p)\<rparr>, []))))"


section \<open>Report generation pipeline\<close>

text \<open>
  The pipeline that writes \<^verbatim>\<open>company_reports\<close> (the \<^verbatim>\<open>analyze-report\<close> command)
  is not among the sources; only its table, its documentation and its readers are.
  Its components are therefore modelled from the specification, each definition
  saying so. A stored report is a row of the table above (\<open>company_report\<close>).
\<close>

subsection \<open>Priority weights\<close>

text \<open>
  Modelled from the spec: the PriorityWeights value, missing with the command-line
  parser. A mapping from a named evaluation axis to a weight, kept as the list of its
  entries in the order given (\<^verbatim>\<open>--weights "growth:30,stability:20,..."\<close>).
\<close>

type_synonym priority_weights = "(string \<times> int) list"

text \<open>
  Modelled from the spec: the invariant of PriorityWeights, missing with the validation
  code. The entries name each axis once, every weight is non-negative, and the weights
  sum to the fixed total 100.
\<close>

definition valid_weights :: "priority_weights \<Rightarrow> bool" where
  "valid_weights w =
     (distinct (map fst w) \<and> list_all (\<lambda>entry. 0 \<le> snd entry) w
      \<and> sum_list (map snd w) = 100)"

text \<open>
  Modelled from the spec: the acceptance of weights at the inbound interface, missing
  with the command. The caller's weights are used when given, the configured default
  weights when omitted; weights that break the invariant are rejected (\<open>None\<close>).
\<close>

definition resolve_weights :: "priority_weights \<Rightarrow> priority_weights option \<Rightarrow> priority_weights option" where
  "resolve_weights default_weights requested =
     (let w = (case requested of None \<Rightarrow> default_weights | Some custom \<Rightarrow> custom)
      in if valid_weights w then Some w else None)"

subsection \<open>Evidence aggregator\<close>

text \<open>
  Modelled from the spec: the persisted evidence, missing with the aggregator. One
  table per source, each row a company identity with one record (for the profile, one
  profile field).
\<close>

record evidence_tables =
  profile_rows :: "(string \<times> string) list"
  posting_rows :: "(string \<times> string) list"
  review_rows :: "(string \<times> string) list"
  interview_rows :: "(string \<times> string) list"
  benefit_rows :: "(string \<times> string) list"
  salary_rows :: "(string \<times> string) list"
  news_rows :: "(string \<times> string) list"

text \<open>
  Modelled from the spec: the EvidenceBundle, missing with the aggregator. The
  per-company snapshot, one ordered collection per source, any of which may be empty.
\<close>

record evidence_bundle =
  profile :: "string list"
  postings :: "string list"
  reviews :: "string list"
  interviews :: "string list"
  benefits :: "string list"
  salaries :: "string list"
  news :: "string list"

text \<open>
  Modelled from the spec: the failure taxonomy of the pipeline, missing with the
  pipeline. \<open>QualityGateFailed\<close> carries the list of violations.
\<close>

datatype pipeline_error =
  InsufficientEvidence | ContextTooLarge | GenerationFailed | ProviderFatalError
  | ResponseParseError | QualityGateFailed "string list"

text \<open>
  Modelled from the spec: the records of one company in one source, missing with the
  aggregator; a company without rows in the source gets the empty collection.
\<close>

definition records_of :: "(string \<times> string) list \<Rightarrow> string \<Rightarrow> string list" where
  "records_of rows company = map snd (filter (\<lambda>row. fst row = company) rows)"

text \<open>
  Modelled from the spec: the Evidence Aggregator, missing from the sources. It reads
  every source for the company; missing sources give empty collections, and it fails
  with \<open>InsufficientEvidence\<close> only when the company has no record in any source.
\<close>

definition aggregate :: "evidence_tables \<Rightarrow> string \<Rightarrow> pipeline_error + evidence_bundle" where
  "aggregate tables company =
     (let b = \<lparr>profile = records_of (profile_rows tables) company,
                postings = records_of (posting_rows tables) company,
                reviews = records_of (review_rows tables) company,
                interviews = records_of (interview_rows tables) company,
                benefits = records_of (benefit_rows tables) company,
                salaries = records_of (salary_rows tables) company,
                news = records_of (news_rows tables) company\<rparr>
      in if profile b = [] \<and> postings b = [] \<and> reviews b = [] \<and> interviews b = []
            \<and> benefits b = [] \<and> salaries b = [] \<and> news b = []
         then Inl InsufficientEvidence else Inr b)"

subsection \<open>Context builder\<close>

text \<open>
  Modelled from the spec: the output of the Context Builder, missing from the sources:
  the bounded context and its content fingerprint (a stable hash over the normalised
  evidence, the weights and the profile).
\<close>

record prompt_context =
  context_text :: string
  fingerprint :: string

subsection \<open>Cache manager and report store\<close>

text \<open>
  Modelled from the spec: \<open>lookup(key)\<close> of the Cache Manager, missing from the sources.
  The cache is keyed by cache key and holds one pointer per key. \<open>lookup\<close> returns a
  prior report when one exists under the key, is quality-gate-passed, and
  \<open>now < cache_expires_at\<close>.
\<close>

definition lookup :: "(string \<rightharpoonup> company_report) \<Rightarrow> string \<Rightarrow> int \<Rightarrow> company_report option" where
  "lookup entries key now =
     (case entries key of
        None \<Rightarrow> None
      | Some r \<Rightarrow>
          if quality_passed r
             \<and> (case cache_expires_at r of None \<Rightarrow> False | Some expires \<Rightarrow> now < expires)
          then Some r else None)"

text \<open>
  Modelled from the spec: the shared state of the pipeline, missing with it: the
  append-only report store in insertion order, the cache keyed by cache key, the next
  value of the store's auto-increment id, and the number of provider calls made so far.
\<close>

record pipeline_state =
  reports :: "company_report list"
  cache :: "string \<rightharpoonup> company_report"
  next_id :: int
  provider_calls :: nat

text \<open>
  Modelled from the spec: \<open>store(report, ttl_days)\<close>, missing from the sources. It
  inserts a single row under the next id, persists the cache metadata (the expiry is
  the generation time plus the validity window), and records the report under its cache
  key, overwriting the prior cache pointer (last write wins). Earlier rows are left as
  they are. The result is the stored report with the new state.
\<close>

definition store :: "pipeline_state \<Rightarrow> company_report \<Rightarrow> int \<Rightarrow> company_report \<times> pipeline_state" where
  "store st report ttl_days =
     (let stored = report\<lparr>report_id := next_id st,
                     cache_expires_at := Some (generated_at report + ttl_days * 86400)\<rparr>
      in (stored,
          st\<lparr>reports := reports st @ [stored],
             cache := (case cache_key report of
                         None \<Rightarrow> cache st
                       | Some key \<Rightarrow> (cache st)(key \<mapsto> stored)),
             next_id := next_id st + 1\<rparr>))"

subsection \<open>Orchestration of one request\<close>

text \<open>
  Modelled from the spec: the ReportRequest, missing with the command: target company
  (name and optional id), optional job posting, weights, cache policy and cache
  validity window in days.
\<close>

record report_request =
  target_company :: string
  target_company_id :: "int option"
  job_posting_id :: "int option"
  weights :: priority_weights
  bypass_cache :: bool
  cache_days :: int

text \<open>
  Modelled from the spec: what one run of the Report Generator yields, missing with
  the generator: the number of retried provider calls after the first call, and either
  a terminal failure or the parsed verdict and total score.
\<close>

record generation =
  retries :: nat
  outcome :: "pipeline_error + (string option \<times> real option)"

text \<open>
  Modelled from the spec: the collaborators of the orchestrator, missing with the
  pipeline, taken as parameters: the evidence tables as they are when the request is
  issued; the Context Builder, which fails (\<open>ContextTooLarge\<close>, or
  \<open>InsufficientEvidence\<close> for a bundle without usable facts) or yields a context; the
  report version and the hash of the cache key; the generator, whose answer may differ
  from one provider call to the next (it is given the number of calls made so far); and
  the quality gate, which lists the violations of a parsed report.
\<close>

record environment =
  tables :: evidence_tables
  context_builder :: "report_request \<Rightarrow> evidence_bundle \<Rightarrow> pipeline_error + prompt_context"
  report_version :: string
  key_hash :: "string \<Rightarrow> int option \<Rightarrow> priority_weights \<Rightarrow> string \<Rightarrow> string \<Rightarrow> string"
  generator :: "nat \<Rightarrow> report_request \<Rightarrow> prompt_context \<Rightarrow> generation"
  quality_gate ::
    "string option \<times> real option \<Rightarrow> evidence_bundle \<Rightarrow> prompt_context \<Rightarrow> string list"

text \<open>
  Modelled from the spec: the cache key of the Cache Manager, missing from the sources:
  the stable hash of company identity, job posting id, weights, context fingerprint and
  report version.
\<close>

definition cache_key_of :: "environment \<Rightarrow> report_request \<Rightarrow> prompt_context \<Rightarrow> string" where
  "cache_key_of env req ctx =
     key_hash env (target_company req) (job_posting_id req) (weights req) (fingerprint ctx)
       (report_version env)"

text \<open>
  Modelled from the spec: the cache key a request gets from the evidence at hand,
  missing with the pipeline: the aggregator and the Context Builder run first, and
  either may fail.
\<close>

definition request_key :: "environment \<Rightarrow> report_request \<Rightarrow> pipeline_error + string" where
  "request_key env req =
     (case aggregate (tables env) (target_company req) of
        Inl e \<Rightarrow> Inl e
      | Inr bundle \<Rightarrow>
          (case context_builder env req bundle of
             Inl e \<Rightarrow> Inl e
           | Inr ctx \<Rightarrow> Inr (cache_key_of env req ctx)))"

text \<open>
  Modelled from the spec: the orchestrator, missing from the sources. Data flow:
  aggregator, Context Builder, cache manager (short-circuit on a hit unless the cache
  is bypassed), report generator, quality gate, report store. A failure of the
  aggregator or of the Context Builder is surfaced before any provider call. A report
  that fails the gate is stored and surfaced as \<open>QualityGateFailed\<close>.
\<close>

definition run_request ::
  "environment \<Rightarrow> int \<Rightarrow> pipeline_state \<Rightarrow> report_request
     \<Rightarrow> (pipeline_error + company_report) \<times> pipeline_state" where
  "run_request env now st req =
     (case aggregate (tables env) (target_company req) of
        Inl e \<Rightarrow> (Inl e, st)
      | Inr bundle \<Rightarrow>
          (case context_builder env req bundle of
             Inl e \<Rightarrow> (Inl e, st)
           | Inr ctx \<Rightarrow>
               (let key = cache_key_of env req ctx
                in case (if bypass_cache req then None else lookup (cache st) key now) of
                     Some cached \<Rightarrow> (Inr cached, st)
                   | None \<Rightarrow>
                       (let g = generator env (provider_calls st) req ctx;
                            st1 = st\<lparr>provider_calls := provider_calls st + 1 + retries g\<rparr>
                        in case outcome g of
                             Inl e \<Rightarrow> (Inl e, st1)
                           | Inr parsed \<Rightarrow>
                               (let violations = quality_gate env parsed bundle ctx;
                                    report = \<lparr>report_id = next_id st1,
                                         company_id = target_company_id req,
                                         company_name = target_company req,
                                         verdict = fst parsed, total_score = snd parsed,
                                         quality_passed = (violations = []),
                                         cache_key = Some key,
                                         cache_expires_at = None,
                                         generated_at = now\<rparr>;
                                    stored = store st1 report (cache_days req)
                                in (if violations = [] then Inr (fst stored)
                                    else Inl (QualityGateFailed violations),
                                    snd stored))))))"


subsection \<open>A scenario\<close>

text \<open>
  Modelled from the spec: the evidence of its end-to-end scenario (the pipeline's own
  tests are missing). Company Acme has three postings and two reviews and nothing else;
  two other companies have one posting each, one of them a long one.
\<close>

definition acme_tables :: evidence_tables where
  "acme_tables =
     \<lparr>profile_rows = [],
      posting_rows = [(''Acme'', ''backend''), (''Acme'', ''data''), (''Other'', ''sales''),
                      (''Acme'', ''design''),
                      (''Big'', ''a posting whose text is longer than the context budget of sixty characters'')],
      review_rows = [(''Acme'', ''4.0''), (''Acme'', ''4.2'')],
      interview_rows = [], benefit_rows = [], salary_rows = [], news_rows = []\<rparr>"

text \<open>
  Modelled from the spec: a Context Builder for the scenario (the builder is missing).
  The context is the text of all records, which is also its own fingerprint; the budget
  is sixty characters and nothing is truncated.
\<close>

definition acme_context_builder :: "report_request \<Rightarrow> evidence_bundle \<Rightarrow> pipeline_error + prompt_context" where
  "acme_context_builder req b =
     (let facts = concat (profile b @ postings b @ reviews b @ interviews b @ benefits b
                    @ salaries b @ news b)
      in if facts = [] then Inl InsufficientEvidence
         else if length facts > 60 then Inl ContextTooLarge
         else Inr \<lparr>context_text = facts, fingerprint = facts\<rparr>)"

text \<open>
  Modelled from the spec: a cache key hash for the scenario (the hash function is
  missing): company, fingerprint and report version side by side (the scenario has one
  job posting id and one set of weights).
\<close>

definition acme_key_hash :: "string \<Rightarrow> int option \<Rightarrow> priority_weights \<Rightarrow> string \<Rightarrow> string \<Rightarrow> string" where
  "acme_key_hash company job ws fp version = company @ ''|'' @ fp @ ''|'' @ version"

text \<open>
  Modelled from the spec: a provider for the scenario (the provider clients are
  missing). Its first answer is the malformed response of the quality-gate scenario,
  without a verdict; its later answers are complete.
\<close>

definition acme_generator :: "nat \<Rightarrow> report_request \<Rightarrow> prompt_context \<Rightarrow> generation" where
  "acme_generator calls req ctx =
     \<lparr>retries = 0,
      outcome = Inr (if calls = 0 then None else Some ''Go'', Some 4.1)\<rparr>"

text \<open>
  Modelled from the spec: a quality gate for the scenario (the gate is missing), which
  reports a missing verdict and nothing else.
\<close>

definition acme_gate ::
  "string option \<times> real option \<Rightarrow> evidence_bundle \<Rightarrow> prompt_context \<Rightarrow> string list" where
  "acme_gate parsed b ctx = (if fst parsed = None then [''verdict missing''] else [])"

text \<open>
  Modelled from the spec: the collaborators of the scenario together (the pipeline's
  configuration is missing).
\<close>

definition acme_env :: environment where
  "acme_env =
     \<lparr>tables = acme_tables, context_builder = acme_context_builder, report_version = ''v4'',
      key_hash = acme_key_hash, generator = acme_generator, quality_gate = acme_gate\<rparr>"

text \<open>
  Modelled from the spec: the same collaborators after one more posting of Acme has been
  collected (the crawlers are missing).
\<close>

definition acme_env_later :: environment where
  "acme_env_later =
     acme_env\<lparr>tables := acme_tables\<lparr>posting_rows :=
                                        posting_rows acme_tables @ [(''Acme'', ''ops'')]\<rparr>\<rparr>"

text \<open>
  Modelled from the spec: the request of the scenario (the command line is missing),
  with the scenario's weights, the cache in use and the default validity of 7 days.
\<close>

definition acme_request :: report_request where
  "acme_request =
     \<lparr>target_company = ''Acme'', target_company_id = Some 7, job_posting_id = None,
      weights = [(''growth'', 30), (''stability'', 20), (''compensation'', 25),
                 (''worklife'', 10), (''rolefit'', 15)],
      bypass_cache = False, cache_days = 7\<rparr>"

text \<open>
  Modelled from the spec: the empty store and cache before the first request (the store
  is missing).
\<close>

definition initial_state :: pipeline_state where
  "initial_state = \<lparr>reports = [], cache = Map.empty, next_id = 1, provider_calls = 0\<rparr>"

text \<open>
  Modelled from the spec: the cache key of the scenario's request while Acme's evidence
  is as above (the hash function is missing).
\<close>

definition acme_cache_key :: string where
  "acme_cache_key = ''Acme|backenddatadesign4.04.2|v4''"

text \<open>
  Modelled from the spec: the report of the scenario's first request at time 0 (the
  store is missing), rejected by the gate and kept for diagnosis.
\<close>

definition acme_rejected_report :: company_report where
  "acme_rejected_report =
     \<lparr>report_id = 1, company_id = Some 7, company_name = ''Acme'', verdict = None,
      total_score = Some 4.1, quality_passed = False, cache_key = Some acme_cache_key,
      cache_expires_at = Some 604800, generated_at = 0\<rparr>"

text \<open>
  Modelled from the spec: the report of the scenario's second request at time 10 (the
  store is missing), which passes the gate.
\<close>

definition acme_report :: company_report where
  "acme_report =
     \<lparr>report_id = 2, company_id = Some 7, company_name = ''Acme'', verdict = Some ''Go'',
      total_score = Some 4.1, quality_passed = True, cache_key = Some acme_cache_key,
      cache_expires_at = Some 604810, generated_at = 10\<rparr>"

text \<open>
  Modelled from the spec: the state after the scenario's first request (the store is
  missing).
\<close>

definition acme_rejected_state :: pipeline_state where
  "acme_rejected_state =
     \<lparr>reports = [acme_rejected_report], cache = [acme_cache_key \<mapsto> acme_rejected_report],
      next_id = 2, provider_calls = 1\<rparr>"

text \<open>
  Modelled from the spec: the state after the scenario's second request (the store is
  missing): both reports are stored and the cache points to the complete one.
\<close>

definition acme_cached_state :: pipeline_state where
  "acme_cached_state =
     \<lparr>reports = [acme_rejected_report, acme_report],
      cache = [acme_cache_key \<mapsto> acme_report], next_id = 3, provider_calls = 2\<rparr>"


section \<open>Properties of the trends aggregation\<close>

lemma foldl_latest_step:
  "foldl latest_step m xs = m @ map (\<lambda>a. (keyword a, a)) (first_rows (set (map fst m)) xs)"
proof (induction xs arbitrary: m)
  case Nil
  show ?case by simp
next
  case (Cons x xs)
  show ?case
  proof (cases "keyword x \<in> set (map fst m)")
    case True
    then have "latest_step m x = m"
      by (simp add: latest_step_def map_has_def)
    with Cons True show ?thesis by simp
  next
    case False
    then have "latest_step m x = m @ [(keyword x, x)]"
      by (simp add: latest_step_def map_has_def map_set_def)
    with Cons [of "m @ [(keyword x, x)]"] False show ?thesis by simp
  qed
qed

lemma getTrendsData_first_rows: "getTrendsData (Some xs) = first_rows {} xs"
  by (simp add: getTrendsData_def latestByKeyword_def map_values_def foldl_latest_step
      comp_def)

lemma first_rows_subseq: "subseq (first_rows seen xs) xs"
  by (induction xs arbitrary: seen) auto

lemma first_rows_subset: "set (first_rows seen xs) \<subseteq> set xs"
  by (induction xs arbitrary: seen) auto

lemma first_rows_fresh: "a \<in> set (first_rows seen xs) \<Longrightarrow> keyword a \<notin> seen"
  by (induction xs arbitrary: seen) (auto split: if_splits)

lemma first_rows_distinct: "distinct (map keyword (first_rows seen xs))"
proof (induction xs arbitrary: seen)
  case Nil
  show ?case by simp
next
  case (Cons x xs)
  have "keyword x \<notin> keyword ` set (first_rows (insert (keyword x) seen) xs)"
    using first_rows_fresh by fastforce
  with Cons show ?case by simp
qed

lemma first_rows_find:
  "a \<in> set (first_rows seen xs) \<Longrightarrow> find (\<lambda>b. keyword b = keyword a) xs = Some a"
proof (induction xs arbitrary: seen)
  case Nil
  then show ?case by simp
next
  case (Cons x xs)
  show ?case
  proof (cases "keyword x \<in> seen")
    case True
    with Cons.prems have in_rest: "a \<in> set (first_rows seen xs)" by simp
    then have "keyword a \<notin> seen" by (rule first_rows_fresh)
    with True have "keyword x \<noteq> keyword a" by auto
    with Cons.IH [OF in_rest] show ?thesis by simp
  next
    case False
    with Cons.prems
    consider "a = x" | "a \<in> set (first_rows (insert (keyword x) seen) xs)" by auto
    then show ?thesis
    proof cases
      case 1
      then show ?thesis by simp
    next
      case 2
      then have "keyword a \<notin> insert (keyword x) seen" by (rule first_rows_fresh)
      then have "keyword x \<noteq> keyword a" by auto
      with Cons.IH [OF 2] show ?thesis by simp
    qed
  qed
qed

lemma first_rows_covers:
  "b \<in> set xs \<Longrightarrow> keyword b \<notin> seen \<Longrightarrow> \<exists>a \<in> set (first_rows seen xs). keyword a = keyword b"
proof (induction xs arbitrary: seen)
  case Nil
  then show ?case by simp
next
  case (Cons x xs)
  show ?case
  proof (cases "keyword x = keyword b")
    case True
    with Cons.prems show ?thesis by auto
  next
    case False
    with Cons.prems have b_in: "b \<in> set xs" by auto
    show ?thesis
    proof (cases "keyword x \<in> seen")
      case True
      with Cons.IH [OF b_in Cons.prems(2)] show ?thesis by simp
    next
      case seen_no: False
      from False Cons.prems(2) have "keyword b \<notin> insert (keyword x) seen" by auto
      from Cons.IH [OF b_in this] seen_no show ?thesis by auto
    qed
  qed
qed

lemma find_first_is_newest:
  "sorted_wrt (\<lambda>a b. analysis_date b \<le> analysis_date a) xs \<Longrightarrow>
   find (\<lambda>b. keyword b = k) xs = Some a \<Longrightarrow> b \<in> set xs \<Longrightarrow> keyword b = k \<Longrightarrow>
   analysis_date b \<le> analysis_date a"
  by (induction xs) (auto split: if_splits)

text \<open>
  C10. When the rows arrive ordered by \<open>analysis_date\<close> descending, the analyses returned
  by \<open>getTrendsData\<close> hold at most one row per keyword (and one for every keyword of the
  input); each returned row is the first row of the input with its keyword, hence no
  older than any other row of that keyword; and the returned rows are in the order in
  which they occur in the input.
\<close>

theorem getTrendsData_latest_per_keyword:
  assumes "sorted_wrt (\<lambda>a b. analysis_date b \<le> analysis_date a) xs"
  shows "distinct (map keyword (getTrendsData (Some xs)))
       \<and> keyword ` set (getTrendsData (Some xs)) = keyword ` set xs
       \<and> (\<forall>a \<in> set (getTrendsData (Some xs)).
             find (\<lambda>b. keyword b = keyword a) xs = Some a)
       \<and> (\<forall>a \<in> set (getTrendsData (Some xs)). \<forall>b \<in> set xs.
             keyword b = keyword a \<longrightarrow> analysis_date b \<le> analysis_date a)
       \<and> subseq (getTrendsData (Some xs)) xs"
proof -
  let ?r = "getTrendsData (Some xs)"
  have r: "?r = first_rows {} xs" by (rule getTrendsData_first_rows)
  have dist: "distinct (map keyword ?r)" by (simp add: r first_rows_distinct)
  have sub: "subseq ?r xs" by (simp add: r first_rows_subseq)
  have firsts: "\<forall>a \<in> set ?r. find (\<lambda>b. keyword b = keyword a) xs = Some a"
    by (simp add: r first_rows_find)
  have keys: "keyword ` set ?r = keyword ` set xs"
  proof
    have "set ?r \<subseteq> set xs" using first_rows_subset [of "{}" xs] by (simp add: r)
    then show "keyword ` set ?r \<subseteq> keyword ` set xs" by auto
    show "keyword ` set xs \<subseteq> keyword ` set ?r"
    proof
      fix k assume "k \<in> keyword ` set xs"
      then obtain b where "b \<in> set xs" and "k = keyword b" by auto
      with first_rows_covers [of b xs "{}"]
      obtain a where "a \<in> set (first_rows {} xs)" and "keyword a = k" by auto
      then show "k \<in> keyword ` set ?r" unfolding r by (metis imageI)
    qed
  qed
  have newest: "\<forall>a \<in> set ?r. \<forall>b \<in> set xs.
          keyword b = keyword a \<longrightarrow> analysis_date b \<le> analysis_date a"
    using firsts find_first_is_newest [OF assms] by blast
  from dist keys firsts newest sub show ?thesis by blast
qed

theorem getTrendsData_latest_per_keyword_witness:
  "sorted_wrt (\<lambda>a b. analysis_date b \<le> analysis_date a)
     [\<lparr>ma_id = 3, keyword = ''ai'', analysis_date = 20, total_postings = Some 7\<rparr>,
      \<lparr>ma_id = 2, keyword = ''web'', analysis_date = 15, total_postings = None\<rparr>,
      \<lparr>ma_id = 1, keyword = ''ai'', analysis_date = 10, total_postings = Some 4\<rparr>]
   \<and> distinct (map keyword (getTrendsData (Some
     [\<lparr>ma_id = 3, keyword = ''ai'', analysis_date = 20, total_postings = Some 7\<rparr>,
      \<lparr>ma_id = 2, keyword = ''web'', analysis_date = 15, total_postings = None\<rparr>,
      \<lparr>ma_id = 1, keyword = ''ai'', analysis_date = 10, total_postings = Some 4\<rparr>])))
   \<and> getTrendsData (Some
     [\<lparr>ma_id = 3, keyword = ''ai'', analysis_date = 20, total_postings = Some 7\<rparr>,
      \<lparr>ma_id = 2, keyword = ''web'', analysis_date = 15, total_postings = None\<rparr>,
      \<lparr>ma_id = 1, keyword = ''ai'', analysis_date = 10, total_postings = Some 4\<rparr>])
     = [\<lparr>ma_id = 3, keyword = ''ai'', analysis_date = 20, total_postings = Some 7\<rparr>,
        \<lparr>ma_id = 2, keyword = ''web'', analysis_date = 15, total_postings = None\<rparr>]"
proof -
  let ?xs = "[\<lparr>ma_id = 3, keyword = ''ai'', analysis_date = 20, total_postings = Some 7\<rparr>,
      \<lparr>ma_id = 2, keyword = ''web'', analysis_date = 15, total_postings = None\<rparr>,
      \<lparr>ma_id = 1, keyword = ''ai'', analysis_date = 10, total_postings = Some (4::int)\<rparr>]"
  have h: "sorted_wrt (\<lambda>a b. analysis_date b \<le> analysis_date a) ?xs" by simp
  have v: "getTrendsData (Some ?xs) = [?xs ! 0, ?xs ! 1]"
    by (simp add: getTrendsData_def latestByKeyword_def latest_step_def map_has_def
        map_set_def map_values_def)
  from getTrendsData_latest_per_keyword [OF h] h v show ?thesis by simp
qed


section \<open>Properties of the dashboard fetchers\<close>

lemma insort_key_map:
  "insort_key f (g x) (map g xs) = map g (insort_key (\<lambda>a. f (g a)) x xs)"
  by (induction xs) auto

lemma sort_key_map: "sort_key f (map g xs) = map g (sort_key (\<lambda>a. f (g a)) xs)"
  by (induction xs) (auto simp: insort_key_map)

lemma sorted_take_before_drop:
  assumes "sorted (map f ys)" "a \<in> set (take n ys)" "b \<in> set (drop n ys)"
  shows "f a \<le> f b"
proof -
  have "sorted (map f (take n ys) @ map f (drop n ys))"
    using assms(1) by (metis append_take_drop_id map_append)
  with assms(2,3) show ?thesis by (auto simp: sorted_append)
qed

text \<open>
  C9. When the database answers a fetcher's query with an error, \<open>getJobs\<close> and
  \<open>getReports\<close> return the empty list with count 0, \<open>getCompanies\<close> and
  \<open>getCompanyReports\<close> return the empty list, and the list section of each page
  shows its empty state: the error is a value, nothing is raised to the page.
\<close>

theorem fetch_error_gives_empty:
  assumes "error rj \<noteq> None" and "error rr \<noteq> None" and "error rc \<noteq> None"
    and "error rp \<noteq> None"
  shows "getJobs_result rj = ([], 0) \<and> list_section (fst (getJobs_result rj)) = EmptyState
       \<and> getReports_result rr = ([], 0) \<and> list_section (fst (getReports_result rr)) = EmptyState
       \<and> getCompanies_result rc = [] \<and> list_section (getCompanies_result rc) = EmptyState
       \<and> getCompanyReports_result rp = []
       \<and> list_section (getCompanyReports_result rp) = EmptyState"
  using assms
  by (simp add: getJobs_result_def getReports_result_def getCompanies_result_def
      getCompanyReports_result_def list_section_def)

theorem fetch_error_gives_empty_witness:
  "getJobs_result \<lparr>data = Some [1::nat, 2], count = Some 2, error = Some ''timeout''\<rparr>
     = ([], 0)
   \<and> getReports_result \<lparr>data = None, count = None, error = Some ''timeout''\<rparr> = ([], 0)
   \<and> getCompanies_result \<lparr>data = Some [''Acme''], count = None, error = Some ''e''\<rparr> = []
   \<and> list_section
        (getCompanyReports_result \<lparr>data = None, count = None, error = Some ''e''\<rparr>)
       = EmptyState"
  using fetch_error_gives_empty
    [of "\<lparr>data = Some [1::nat, 2], count = Some 2, error = Some ''timeout''\<rparr>"
        "\<lparr>data = None, count = None, error = Some ''timeout''\<rparr>"
        "\<lparr>data = Some [''Acme''], count = None, error = Some ''e''\<rparr>"
        "\<lparr>data = None, count = None, error = Some ''e''\<rparr>"]
  by (simp add: list_section_def)

section \<open>Properties of the per-company report lookup\<close>

lemma getCompanyReports_eq:
  "getCompanyReports tbl c =
     take 5 (sort_key (\<lambda>r. - generated_at r) (filter (\<lambda>r. company_id r = Some c) tbl))"
  by (simp add: getCompanyReports_def company_reports_query_def getCompanyReports_result_def
      or_empty_def)

text \<open>
  C1 as stated fails: the lookup of a company's reports does not consult
  \<open>quality_passed\<close>. With a passing report generated at time 100 and a failing one at
  time 200, the failing report is returned, and returned first.
\<close>

theorem getCompanyReports_serves_failed_report:
  "map report_id (getCompanyReports
      [\<lparr>report_id = 1, company_id = Some 7, company_name = ''Acme'',
        verdict = Some ''Go'', total_score = Some 4.1, quality_passed = True,
        cache_key = Some ''k1'', cache_expires_at = Some 700,
        generated_at = 100\<rparr>,
       \<lparr>report_id = 2, company_id = Some 7, company_name = ''Acme'',
        verdict = None, total_score = None, quality_passed = False,
        cache_key = Some ''k2'', cache_expires_at = Some 800,
        generated_at = 200\<rparr>] 7) = [2, 1]
   \<and> \<not> quality_passed (hd (getCompanyReports
      [\<lparr>report_id = 1, company_id = Some 7, company_name = ''Acme'',
        verdict = Some ''Go'', total_score = Some 4.1, quality_passed = True,
        cache_key = Some ''k1'', cache_expires_at = Some 700,
        generated_at = 100\<rparr>,
       \<lparr>report_id = 2, company_id = Some 7, company_name = ''Acme'',
        verdict = None, total_score = None, quality_passed = False,
        cache_key = Some ''k2'', cache_expires_at = Some 800,
        generated_at = 200\<rparr>] 7))"
  by (simp add: getCompanyReports_eq)

text \<open>
  C1, amended. For every company, \<open>getCompanyReports\<close> returns reports of that company
  only, newest first by \<open>generated_at\<close>, at most five of them, and no report of the
  company that is left out is newer than a returned one; which reports are returned does
  not depend on \<open>quality_passed\<close> (changing the flag of any rows leaves the returned ids
  unchanged).
\<close>

theorem getCompanyReports_recent_any_quality:
  "(\<forall>r \<in> set (getCompanyReports tbl c). r \<in> set tbl \<and> company_id r = Some c)
   \<and> sorted_wrt (\<lambda>a b. generated_at b \<le> generated_at a) (getCompanyReports tbl c)
   \<and> length (getCompanyReports tbl c)
       = min 5 (length (filter (\<lambda>r. company_id r = Some c) tbl))
   \<and> (\<forall>r \<in> set tbl. company_id r = Some c \<longrightarrow> r \<notin> set (getCompanyReports tbl c) \<longrightarrow>
         (\<forall>r' \<in> set (getCompanyReports tbl c). generated_at r \<le> generated_at r'))
   \<and> map report_id (getCompanyReports (map (\<lambda>r. r\<lparr>quality_passed := q r\<rparr>) tbl) c)
       = map report_id (getCompanyReports tbl c)"
proof -
  let ?k = "\<lambda>r::company_report. - generated_at r"
  let ?ys = "sort_key ?k (filter (\<lambda>r. company_id r = Some c) tbl)"
  have eq: "getCompanyReports tbl c = take 5 ?ys" by (rule getCompanyReports_eq)
  have srt: "sorted (map ?k ?ys)" by (rule sorted_sort_key)
  have p1: "\<forall>r \<in> set (take 5 ?ys). r \<in> set tbl \<and> company_id r = Some c"
  proof
    fix r assume "r \<in> set (take 5 ?ys)"
    then have "r \<in> set ?ys" by (rule in_set_takeD)
    then show "r \<in> set tbl \<and> company_id r = Some c" by simp
  qed
  have "sorted (map ?k (take 5 ?ys))" using srt by (simp add: take_map [symmetric] sorted_wrt_take)
  then have p2: "sorted_wrt (\<lambda>a b. generated_at b \<le> generated_at a) (take 5 ?ys)"
    by (simp add: sorted_wrt_map)
  have p3: "length (take 5 ?ys) = min 5 (length (filter (\<lambda>r. company_id r = Some c) tbl))"
    by simp
  have p4: "\<forall>r \<in> set tbl. company_id r = Some c \<longrightarrow> r \<notin> set (take 5 ?ys) \<longrightarrow>
         (\<forall>r' \<in> set (take 5 ?ys). generated_at r \<le> generated_at r')"
  proof (intro ballI impI)
    fix r r' assume r: "r \<in> set tbl" "company_id r = Some c" "r \<notin> set (take 5 ?ys)"
      and r': "r' \<in> set (take 5 ?ys)"
    from r(1,2) have "r \<in> set ?ys" by simp
    then have "r \<in> set (take 5 ?ys) \<union> set (drop 5 ?ys)"
      by (metis append_take_drop_id set_append)
    with r(3) have "r \<in> set (drop 5 ?ys)" by simp
    from sorted_take_before_drop [OF srt r' this] show "generated_at r \<le> generated_at r'"
      by simp
  qed
  let ?g = "\<lambda>r::company_report. r\<lparr>quality_passed := q r\<rparr>"
  have "getCompanyReports (map ?g tbl) c = map ?g (take 5 ?ys)"
    by (simp add: getCompanyReports_eq filter_map sort_key_map comp_def take_map)
  then have p5: "map report_id (getCompanyReports (map ?g tbl) c) = map report_id (take 5 ?ys)"
    by (simp add: comp_def)
  from p1 p2 p3 p4 p5 show ?thesis unfolding eq by blast
qed

theorem getCompanyReports_recent_any_quality_witness:
  "getCompanyReports
      [\<lparr>report_id = 1, company_id = Some 7, company_name = ''Acme'',
        verdict = Some ''Go'', total_score = Some 4.1, quality_passed = True,
        cache_key = Some ''k1'', cache_expires_at = Some 700,
        generated_at = 100\<rparr>,
       \<lparr>report_id = 2, company_id = Some 7, company_name = ''Acme'',
        verdict = None, total_score = None, quality_passed = False,
        cache_key = Some ''k2'', cache_expires_at = Some 800,
        generated_at = 200\<rparr>] 7 \<noteq> []
   \<and> sorted_wrt (\<lambda>a b. generated_at b \<le> generated_at a) (getCompanyReports
      [\<lparr>report_id = 1, company_id = Some 7, company_name = ''Acme'',
        verdict = Some ''Go'', total_score = Some 4.1, quality_passed = True,
        cache_key = Some ''k1'', cache_expires_at = Some 700,
        generated_at = 100\<rparr>,
       \<lparr>report_id = 2, company_id = Some 7, company_name = ''Acme'',
        verdict = None, total_score = None, quality_passed = False,
        cache_key = Some ''k2'', cache_expires_at = Some 800,
        generated_at = 200\<rparr>] 7)
   \<and> length (getCompanyReports
      [\<lparr>report_id = 1, company_id = Some 7, company_name = ''Acme'',
        verdict = Some ''Go'', total_score = Some 4.1, quality_passed = True,
        cache_key = Some ''k1'', cache_expires_at = Some 700,
        generated_at = 100\<rparr>,
       \<lparr>report_id = 2, company_id = Some 7, company_name = ''Acme'',
        verdict = None, total_score = None, quality_passed = False,
        cache_key = Some ''k2'', cache_expires_at = Some 800,
        generated_at = 200\<rparr>] 7) = 2"
  using getCompanyReports_recent_any_quality [of
      "[\<lparr>report_id = 1, company_id = Some 7, company_name = ''Acme'',
        verdict = Some ''Go'', total_score = Some 4.1, quality_passed = True,
        cache_key = Some ''k1'', cache_expires_at = Some 700,
        generated_at = 100\<rparr>,
       \<lparr>report_id = 2, company_id = Some 7, company_name = ''Acme'',
        verdict = None, total_score = None, quality_passed = False,
        cache_key = Some ''k2'', cache_expires_at = Some 800,
        generated_at = 200\<rparr>]" 7 "\<lambda>r. True"]
  by (simp add: getCompanyReports_eq)


section \<open>Properties of the verdict and score display\<close>

lemma getVerdictStyle_report_same:
  "verdict_style.truncate (getVerdictStyle_report v0) = getVerdictStyle v0"
  by (simp add: getVerdictStyle_report_def getVerdictStyle_def verdict_style.truncate_def
      split: option.split)

lemma str_includes_sublist: "str_includes s p \<longleftrightarrow> sublist p s"
  by (induction s) (auto simp: sublist_Cons_right)

text \<open>
  C3 as stated fails. Whatever the spelling of the strongest positive verdict, the two
  consumers treat it like a missing verdict; and the report list page
  (\<open>getVerdictLabel\<close>) does not know \<open>Go\<close>, which the company page
  (\<open>getVerdictStyle\<close>) does.
\<close>

theorem verdict_consumers_disagree:
  "getVerdictStyle (Some ''StrongGo'') = getVerdictStyle None
   \<and> getVerdictStyle (Some ''Strong Go'') = getVerdictStyle None
   \<and> getVerdictLabel (Some ''StrongGo'') = getVerdictLabel None
   \<and> getVerdictLabel (Some ''Go'') = getVerdictLabel None
   \<and> getVerdictStyle (Some ''Go'') \<noteq> getVerdictStyle None
   \<and> getVerdictLabel (Some ''STRONG_YES'') \<noteq> getVerdictLabel None
   \<and> getVerdictStyle (Some ''STRONG_YES'') = getVerdictStyle None"
  by code_simp

text \<open>
  C3, amended. The verdict of a report is any string or \<open>null\<close>. \<open>getVerdictStyle\<close>
  (company page, and report page with a border class) always answers with one of four
  styles and recognises three classes of verdict, ignoring case: red exactly for a
  verdict that contains \<open>no-go\<close> or \<open>nogo\<close>; yellow exactly for one that contains
  \<open>conditional\<close> and neither of those; green exactly for one that equals \<open>go\<close>; every
  other verdict, \<open>null\<close> included, gets the gray style.
\<close>

theorem getVerdictStyle_serves_three_classes:
  "getVerdictStyle v0 \<in>
     {\<lparr>bg = ''bg-gray-100'', text_class = ''text-gray-700''\<rparr>,
      \<lparr>bg = ''bg-red-100'', text_class = ''text-red-700''\<rparr>,
      \<lparr>bg = ''bg-yellow-100'', text_class = ''text-yellow-700''\<rparr>,
      \<lparr>bg = ''bg-green-100'', text_class = ''text-green-700''\<rparr>}
   \<and> (getVerdictStyle v0 = \<lparr>bg = ''bg-red-100'', text_class = ''text-red-700''\<rparr> \<longleftrightarrow>
        (\<exists>v. v0 = Some v \<and> (sublist ''no-go'' (toLowerCase v) \<or> sublist ''nogo'' (toLowerCase v))))
   \<and> (getVerdictStyle v0 = \<lparr>bg = ''bg-yellow-100'', text_class = ''text-yellow-700''\<rparr> \<longleftrightarrow>
        (\<exists>v. v0 = Some v \<and> sublist ''conditional'' (toLowerCase v)
           \<and> \<not> sublist ''no-go'' (toLowerCase v) \<and> \<not> sublist ''nogo'' (toLowerCase v)))
   \<and> (getVerdictStyle v0 = \<lparr>bg = ''bg-green-100'', text_class = ''text-green-700''\<rparr> \<longleftrightarrow>
        (\<exists>v. v0 = Some v \<and> toLowerCase v = ''go''))
   \<and> verdict_style.truncate (getVerdictStyle_report v0) = getVerdictStyle v0"
proof (cases v0)
  case None
  then show ?thesis
    by (simp add: getVerdictStyle_report_same) (simp add: getVerdictStyle_def)
next
  case (Some v)
  have e: "\<not> str_includes [] ''no-go''" "\<not> str_includes [] ''nogo''"
    "\<not> str_includes [] ''conditional''" by simp_all
  have g: "\<not> str_includes ''go'' ''no-go''" "\<not> str_includes ''go'' ''nogo''"
    "\<not> str_includes ''go'' ''conditional''" by simp_all
  have n: "v = [] \<Longrightarrow> toLowerCase v = []" by (simp add: toLowerCase_def)
  show ?thesis
    unfolding getVerdictStyle_report_same str_includes_sublist [symmetric] Some
    using e g n by (auto simp: getVerdictStyle_def)
qed

theorem getVerdictStyle_serves_three_classes_witness:
  "getVerdictStyle (Some ''Go'') = \<lparr>bg = ''bg-green-100'', text_class = ''text-green-700''\<rparr>
   \<and> (\<exists>v. Some ''Go'' = Some v \<and> toLowerCase v = ''go'')"
proof -
  have "toLowerCase ''Go'' = ''go''" by code_simp
  with getVerdictStyle_serves_three_classes [of "Some ''Go''"] show ?thesis by simp
qed

text \<open>
  C4. The schema documents \<open>total_score\<close> as 0.00 to 5.00 and the company page prints
  it out of 5.0, but the report list page colours it with the thresholds 70 and 50:
  every score from 0 to 5 is shown in red there.
\<close>

theorem ReportsPage_score_always_red:
  "total_score report = Some s \<Longrightarrow> 0 \<le> s \<Longrightarrow> s \<le> 5 \<Longrightarrow>
   ReportsPage_score report = Some (''text-red-600'', s)
   \<and> CompanyPage_score report = Some (if s = 0 then BareZero else OutOfFive s)"
  by (simp add: ReportsPage_score_def CompanyPage_score_def score_class_def)

theorem ReportsPage_score_always_red_witness:
  "ReportsPage_score
     \<lparr>report_id = 1, company_id = Some 7, company_name = ''Acme'', verdict = Some ''Go'',
      total_score = Some 4.5, quality_passed = True, cache_key = None,
      cache_expires_at = None, generated_at = 100\<rparr> = Some (''text-red-600'', 4.5)
   \<and> CompanyPage_score
     \<lparr>report_id = 1, company_id = Some 7, company_name = ''Acme'', verdict = Some ''Go'',
      total_score = Some 4.5, quality_passed = True, cache_key = None,
      cache_expires_at = None, generated_at = 100\<rparr> = Some (OutOfFive 4.5)"
  using ReportsPage_score_always_red [of
     "\<lparr>report_id = 1, company_id = Some 7, company_name = ''Acme'', verdict = Some ''Go'',
      total_score = Some 4.5, quality_passed = True, cache_key = None,
      cache_expires_at = None, generated_at = 100\<rparr>" "4.5"]
  by simp


section \<open>Properties of the revalidation endpoint\<close>

lemma get_property_not_null: "b \<noteq> JNull \<Longrightarrow> \<exists>p. get_property b k = Inr p"
  by (cases b) simp_all

lemma revalidatePath_not_string: "\<forall>s. v \<noteq> JStr s \<Longrightarrow> revalidatePath v calls = Inl TypeError"
  by (cases v) simp_all

text \<open>
  C8 as stated fails for an authorised request without a usable path: when the body is
  not JSON text, or is the JSON value \<open>null\<close>, or names a path that is truthy but not a
  string, the handler answers 500 and revalidates nothing, not even the default path.
\<close>

theorem POST_authorised_bad_body_revalidates_nothing:
  "POST ''s3cret'' \<lparr>x_revalidate_secret = Some ''s3cret'', json_body = None\<rparr>
     = (\<lparr>status = 500, payload = ErrorBody ''Revalidation failed''\<rparr>, [])
   \<and> POST ''s3cret'' \<lparr>x_revalidate_secret = Some ''s3cret'', json_body = Some JNull\<rparr>
     = (\<lparr>status = 500, payload = ErrorBody ''Revalidation failed''\<rparr>, [])
   \<and> POST ''s3cret'' \<lparr>x_revalidate_secret = Some ''s3cret'',
         json_body = Some (JObj [(''path'', JBool True)])\<rparr>
     = (\<lparr>status = 500, payload = ErrorBody ''Revalidation failed''\<rparr>, [])"
  by (simp add: POST_def path_or_root_def)

text \<open>
  C8, amended. A request whose \<open>x-revalidate-secret\<close> header is not the configured secret
  is answered by both handlers with 401 and \<open>Invalid secret\<close>, and nothing is revalidated.
  For an authorised request whose body is a JSON value other than \<open>null\<close> and whose
  requested path (\<open>/\<close> when the body names no truthy path) is a string, the Node
  handler answers 200 and revalidates that path, followed by \<open>/jobs\<close>, \<open>/companies\<close>,
  \<open>/trends\<close> and \<open>/roadmap\<close> when the path is \<open>/\<close>. An authorised request whose body is
  not JSON, or is \<open>null\<close>, or names a truthy path that is not a string, is answered
  with 500 and nothing is revalidated. The edge handler never revalidates.
\<close>

theorem POST_revalidate:
  "(x_revalidate_secret request \<noteq> Some secret \<longrightarrow>
      POST secret request = (\<lparr>status = 401, payload = ErrorBody ''Invalid secret''\<rparr>, [])
      \<and> POST_edge secret request
          = (\<lparr>status = 401, payload = ErrorBody ''Invalid secret''\<rparr>, []))
   \<and> (x_revalidate_secret request = Some secret \<longrightarrow>
        (\<forall>body. json_body request = Some body \<and> body \<noteq> JNull \<longrightarrow>
           (\<exists>p. get_property body ''path'' = Inr p
              \<and> (\<forall>s. path_or_root p = JStr s \<longrightarrow>
                    POST secret request
                      = (\<lparr>status = 200, payload = Revalidated (JStr s)\<rparr>,
                         if s = ''/''
                         then [JStr ''/'', JStr ''/jobs'', JStr ''/companies'',
                               JStr ''/trends'', JStr ''/roadmap'']
                         else [JStr s]))
              \<and> ((\<forall>s. path_or_root p \<noteq> JStr s) \<longrightarrow>
                    POST secret request
                      = (\<lparr>status = 500, payload = ErrorBody ''Revalidation failed''\<rparr>, []))))
        \<and> (json_body request = None \<or> json_body request = Some JNull \<longrightarrow>
             POST secret request
               = (\<lparr>status = 500, payload = ErrorBody ''Revalidation failed''\<rparr>, [])))
   \<and> snd (POST_edge secret request) = []"
proof -
  have edge: "snd (POST_edge secret request) = []"
    by (simp add: POST_edge_def split: option.split sum.split)
  have unauth: "x_revalidate_secret request \<noteq> Some secret \<longrightarrow>
      POST secret request = (\<lparr>status = 401, payload = ErrorBody ''Invalid secret''\<rparr>, [])
      \<and> POST_edge secret request
          = (\<lparr>status = 401, payload = ErrorBody ''Invalid secret''\<rparr>, [])"
    by (simp add: POST_def POST_edge_def)
  have bad: "x_revalidate_secret request = Some secret \<longrightarrow>
      json_body request = None \<or> json_body request = Some JNull \<longrightarrow>
      POST secret request
        = (\<lparr>status = 500, payload = ErrorBody ''Revalidation failed''\<rparr>, [])"
    by (auto simp: POST_def)
  have good: "x_revalidate_secret request = Some secret \<longrightarrow>
      (\<forall>body. json_body request = Some body \<and> body \<noteq> JNull \<longrightarrow>
         (\<exists>p. get_property body ''path'' = Inr p
            \<and> (\<forall>s. path_or_root p = JStr s \<longrightarrow>
                  POST secret request
                    = (\<lparr>status = 200, payload = Revalidated (JStr s)\<rparr>,
                       if s = ''/''
                       then [JStr ''/'', JStr ''/jobs'', JStr ''/companies'',
                             JStr ''/trends'', JStr ''/roadmap'']
                       else [JStr s]))
            \<and> ((\<forall>s. path_or_root p \<noteq> JStr s) \<longrightarrow>
                  POST secret request
                    = (\<lparr>status = 500, payload = ErrorBody ''Revalidation failed''\<rparr>, []))))"
  proof (intro impI allI)
    fix body
    assume auth: "x_revalidate_secret request = Some secret"
      and body: "json_body request = Some body \<and> body \<noteq> JNull"
    then obtain p where p: "get_property body ''path'' = Inr p"
      using get_property_not_null by blast
    have str: "\<forall>s. path_or_root p = JStr s \<longrightarrow>
                  POST secret request
                    = (\<lparr>status = 200, payload = Revalidated (JStr s)\<rparr>,
                       if s = ''/''
                       then [JStr ''/'', JStr ''/jobs'', JStr ''/companies'',
                             JStr ''/trends'', JStr ''/roadmap'']
                       else [JStr s])"
      using auth body p by (simp add: POST_def Let_def)
    have other: "(\<forall>s. path_or_root p \<noteq> JStr s) \<longrightarrow>
                  POST secret request
                    = (\<lparr>status = 500, payload = ErrorBody ''Revalidation failed''\<rparr>, [])"
      using auth body p revalidatePath_not_string [of "path_or_root p" "[]"]
      by (simp add: POST_def Let_def)
    from p str other show "\<exists>p. get_property body ''path'' = Inr p
            \<and> (\<forall>s. path_or_root p = JStr s \<longrightarrow>
                  POST secret request
                    = (\<lparr>status = 200, payload = Revalidated (JStr s)\<rparr>,
                       if s = ''/''
                       then [JStr ''/'', JStr ''/jobs'', JStr ''/companies'',
                             JStr ''/trends'', JStr ''/roadmap'']
                       else [JStr s]))
            \<and> ((\<forall>s. path_or_root p \<noteq> JStr s) \<longrightarrow>
                  POST secret request
                    = (\<lparr>status = 500, payload = ErrorBody ''Revalidation failed''\<rparr>, []))"
      by blast
  qed
  from unauth bad good edge show ?thesis by blast
qed

theorem POST_revalidate_witness:
  "POST ''s3cret'' \<lparr>x_revalidate_secret = Some ''guess'', json_body = Some (JObj [])\<rparr>
     = (\<lparr>status = 401, payload = ErrorBody ''Invalid secret''\<rparr>, [])
   \<and> POST ''s3cret'' \<lparr>x_revalidate_secret = None, json_body = Some (JObj [])\<rparr>
     = (\<lparr>status = 401, payload = ErrorBody ''Invalid secret''\<rparr>, [])
   \<and> snd (POST ''s3cret'' \<lparr>x_revalidate_secret = Some ''s3cret'', json_body = Some (JObj [])\<rparr>)
     = [JStr ''/'', JStr ''/jobs'', JStr ''/companies'', JStr ''/trends'', JStr ''/roadmap'']
   \<and> snd (POST ''s3cret'' \<lparr>x_revalidate_secret = Some ''s3cret'',
            json_body = Some (JObj [(''path'', JStr ''/jobs'')])\<rparr>)
     = [JStr ''/jobs'']
   \<and> POST ''s3cret'' \<lparr>x_revalidate_secret = Some ''s3cret'',
            json_body = Some (JObj [(''path'', JNum 5)])\<rparr>
     = (\<lparr>status = 500, payload = ErrorBody ''Revalidation failed''\<rparr>, [])"
  using
    POST_revalidate [of "\<lparr>x_revalidate_secret = Some ''guess'', json_body = Some (JObj [])\<rparr>"
      "''s3cret''"]
    POST_revalidate [of "\<lparr>x_revalidate_secret = None, json_body = Some (JObj [])\<rparr>"
      "''s3cret''"]
    POST_revalidate [of "\<lparr>x_revalidate_secret = Some ''s3cret'', json_body = Some (JObj [])\<rparr>"
      "''s3cret''"]
    POST_revalidate [of "\<lparr>x_revalidate_secret = Some ''s3cret'',
            json_body = Some (JObj [(''path'', JStr ''/jobs'')])\<rparr>" "''s3cret''"]
    POST_revalidate [of "\<lparr>x_revalidate_secret = Some ''s3cret'',
            json_body = Some (JObj [(''path'', JNum 5)])\<rparr>" "''s3cret''"]
  by (simp add: path_or_root_def)


section \<open>Properties of the report pipeline\<close>

subsection \<open>Evaluating the scenario\<close>

lemmas scen = acme_env_def acme_env_later_def acme_tables_def acme_context_builder_def
  acme_key_hash_def acme_generator_def acme_gate_def acme_request_def initial_state_def
  acme_cache_key_def acme_rejected_report_def acme_report_def acme_rejected_state_def
  acme_cached_state_def

lemmas pipeline = run_request_def aggregate_def records_of_def cache_key_of_def lookup_def
  store_def Let_def

lemma acme_run2:
  "run_request acme_env 10 acme_rejected_state acme_request = (Inr acme_report, acme_cached_state)"
  by (simp add: scen pipeline)


lemma acme_request_key: "request_key acme_env acme_request = Inr acme_cache_key"
  by (simp add: request_key_def scen aggregate_def records_of_def cache_key_of_def Let_def)

subsection \<open>Priority weights\<close>

text \<open>
  C6. Whatever weights the system accepts, the caller's or the configured defaults, are
  non-negative and sum to exactly 100, and they are the caller's weights or the
  defaults; custom weights that do not sum to 100 are rejected; and when the caller
  omits the weights, the default weights (themselves a PriorityWeights value) are
  supplied.
\<close>

theorem resolve_weights_invariant:
  "(resolve_weights default_weights requested = Some w \<longrightarrow>
      list_all (\<lambda>entry. 0 \<le> snd entry) w \<and> sum_list (map snd w) = 100
      \<and> (w = default_weights \<or> requested = Some w))
   \<and> (sum_list (map snd custom) \<noteq> 100 \<longrightarrow> resolve_weights default_weights (Some custom) = None)
   \<and> (valid_weights default_weights \<longrightarrow> resolve_weights default_weights None = Some default_weights)"
  by (auto simp: resolve_weights_def valid_weights_def Let_def split: option.splits if_splits)

theorem resolve_weights_invariant_witness:
  "resolve_weights
     [(''growth'', 30), (''stability'', 20), (''compensation'', 25), (''worklife'', 10),
      (''rolefit'', 15)] None
     = Some [(''growth'', 30), (''stability'', 20), (''compensation'', 25), (''worklife'', 10),
      (''rolefit'', 15)]
   \<and> resolve_weights
     [(''growth'', 30), (''stability'', 20), (''compensation'', 25), (''worklife'', 10),
      (''rolefit'', 15)] (Some [(''growth'', 60), (''stability'', 30)]) = None
   \<and> resolve_weights
     [(''growth'', 30), (''stability'', 20), (''compensation'', 25), (''worklife'', 10),
      (''rolefit'', 15)] (Some [(''growth'', 60), (''stability'', 40)])
     = Some [(''growth'', 60), (''stability'', 40)]"
proof -
  let ?d = "[(''growth'', 30), (''stability'', 20), (''compensation'', 25), (''worklife'', 10),
      (''rolefit'', 15::int)]"
  have v: "valid_weights ?d" by (simp add: valid_weights_def)
  have s: "sum_list (map snd [(''growth'', 60::int), (''stability'', 30)]) \<noteq> 100" by simp
  have a: "resolve_weights ?d (Some [(''growth'', 60), (''stability'', 40)])
     = Some [(''growth'', 60), (''stability'', 40)]"
    by (simp add: resolve_weights_def valid_weights_def)
  from resolve_weights_invariant [of ?d None ?d "[(''growth'', 60), (''stability'', 30)]"] v s a
  show ?thesis by simp
qed

subsection \<open>Evidence aggregation\<close>

text \<open>
  C7. A request for a company with no record in any evidence source (no profile field,
  posting, review, interview, benefit, salary or news item) fails with
  \<open>InsufficientEvidence\<close> and leaves the state as it was, so no provider call has been
  made; a company with a record in at least one source is aggregated without failure,
  each source contributing exactly its records for the company, hence the empty
  collection where it has none.
\<close>

theorem aggregate_insufficient_evidence:
  "(records_of (profile_rows (tables env)) (target_company req) = []
    \<and> records_of (posting_rows (tables env)) (target_company req) = []
    \<and> records_of (review_rows (tables env)) (target_company req) = []
    \<and> records_of (interview_rows (tables env)) (target_company req) = []
    \<and> records_of (benefit_rows (tables env)) (target_company req) = []
    \<and> records_of (salary_rows (tables env)) (target_company req) = []
    \<and> records_of (news_rows (tables env)) (target_company req) = []
    \<longrightarrow> aggregate (tables env) (target_company req) = Inl InsufficientEvidence
      \<and> run_request env now st req = (Inl InsufficientEvidence, st))
   \<and> (records_of (profile_rows (tables env)) (target_company req) \<noteq> []
      \<or> records_of (posting_rows (tables env)) (target_company req) \<noteq> []
      \<or> records_of (review_rows (tables env)) (target_company req) \<noteq> []
      \<or> records_of (interview_rows (tables env)) (target_company req) \<noteq> []
      \<or> records_of (benefit_rows (tables env)) (target_company req) \<noteq> []
      \<or> records_of (salary_rows (tables env)) (target_company req) \<noteq> []
      \<or> records_of (news_rows (tables env)) (target_company req) \<noteq> []
    \<longrightarrow> aggregate (tables env) (target_company req)
        = Inr \<lparr>profile = records_of (profile_rows (tables env)) (target_company req),
               postings = records_of (posting_rows (tables env)) (target_company req),
               reviews = records_of (review_rows (tables env)) (target_company req),
               interviews = records_of (interview_rows (tables env)) (target_company req),
               benefits = records_of (benefit_rows (tables env)) (target_company req),
               salaries = records_of (salary_rows (tables env)) (target_company req),
               news = records_of (news_rows (tables env)) (target_company req)\<rparr>)"
proof -
  let ?t = "tables env" and ?c = "target_company req"
  have fail: "records_of (profile_rows ?t) ?c = [] \<Longrightarrow> records_of (posting_rows ?t) ?c = []
    \<Longrightarrow> records_of (review_rows ?t) ?c = [] \<Longrightarrow> records_of (interview_rows ?t) ?c = []
    \<Longrightarrow> records_of (benefit_rows ?t) ?c = [] \<Longrightarrow> records_of (salary_rows ?t) ?c = []
    \<Longrightarrow> records_of (news_rows ?t) ?c = []
    \<Longrightarrow> aggregate ?t ?c = Inl InsufficientEvidence"
    by (simp add: aggregate_def)
  have run: "aggregate ?t ?c = Inl InsufficientEvidence
    \<Longrightarrow> run_request env now st req = (Inl InsufficientEvidence, st)"
    by (simp add: run_request_def)
  have ok: "records_of (profile_rows ?t) ?c \<noteq> [] \<or> records_of (posting_rows ?t) ?c \<noteq> []
      \<or> records_of (review_rows ?t) ?c \<noteq> [] \<or> records_of (interview_rows ?t) ?c \<noteq> []
      \<or> records_of (benefit_rows ?t) ?c \<noteq> [] \<or> records_of (salary_rows ?t) ?c \<noteq> []
      \<or> records_of (news_rows ?t) ?c \<noteq> []
    \<Longrightarrow> aggregate ?t ?c
        = Inr \<lparr>profile = records_of (profile_rows ?t) ?c,
               postings = records_of (posting_rows ?t) ?c,
               reviews = records_of (review_rows ?t) ?c,
               interviews = records_of (interview_rows ?t) ?c,
               benefits = records_of (benefit_rows ?t) ?c,
               salaries = records_of (salary_rows ?t) ?c,
               news = records_of (news_rows ?t) ?c\<rparr>"
    unfolding aggregate_def Let_def by auto
  from fail run ok show ?thesis by blast
qed

theorem aggregate_insufficient_evidence_witness:
  "run_request acme_env 0 initial_state (acme_request\<lparr>target_company := ''Nobody''\<rparr>)
     = (Inl InsufficientEvidence, initial_state)
   \<and> aggregate (tables acme_env) (target_company acme_request)
     = Inr \<lparr>profile = [], postings = [''backend'', ''data'', ''design''],
            reviews = [''4.0'', ''4.2''], interviews = [], benefits = [], salaries = [],
            news = []\<rparr>"
  using aggregate_insufficient_evidence
      [of acme_env "acme_request\<lparr>target_company := ''Nobody''\<rparr>" 0 initial_state]
    aggregate_insufficient_evidence [of acme_env acme_request 0 initial_state]
  by (simp add: acme_env_def acme_tables_def acme_request_def records_of_def)

subsection \<open>Stages of one request\<close>

lemma lookup_Some_iff:
  "lookup entries key now = Some r \<longleftrightarrow>
     entries key = Some r \<and> quality_passed r
     \<and> (\<exists>e. cache_expires_at r = Some e \<and> now < e)"
  by (auto simp: lookup_def split: option.splits if_splits)

lemma request_key_Inr:
  "request_key env req = Inr k \<longleftrightarrow>
     (\<exists>b c. aggregate (tables env) (target_company req) = Inr b
        \<and> context_builder env req b = Inr c \<and> cache_key_of env req c = k)"
  by (auto simp: request_key_def split: sum.splits)

lemma run_request_hit:
  assumes "aggregate (tables env) (target_company req) = Inr b"
    and "context_builder env req b = Inr c"
    and "\<not> bypass_cache req"
    and "lookup (cache st) (cache_key_of env req c) now = Some r"
  shows "run_request env now st req = (Inr r, st)"
  using assms by (simp add: run_request_def Let_def)

lemma run_request_failed:
  assumes "aggregate (tables env) (target_company req) = Inr b"
    and "context_builder env req b = Inr c"
    and "bypass_cache req \<or> lookup (cache st) (cache_key_of env req c) now = None"
    and "outcome (generator env (provider_calls st) req c) = Inl e"
  shows "run_request env now st req
     = (Inl e, st\<lparr>provider_calls := provider_calls st + 1
                    + retries (generator env (provider_calls st) req c)\<rparr>)"
  using assms by (auto simp add: run_request_def Let_def)

lemma run_request_generated:
  assumes "aggregate (tables env) (target_company req) = Inr b"
    and "context_builder env req b = Inr c"
    and "bypass_cache req \<or> lookup (cache st) (cache_key_of env req c) now = None"
    and "outcome (generator env (provider_calls st) req c) = Inr parsed"
  shows "run_request env now st req
     = (if quality_gate env parsed b c = []
        then Inr \<lparr>report_id = next_id st, company_id = target_company_id req,
               company_name = target_company req, verdict = fst parsed,
               total_score = snd parsed, quality_passed = True,
               cache_key = Some (cache_key_of env req c),
               cache_expires_at = Some (now + cache_days req * 86400),
               generated_at = now\<rparr>
        else Inl (QualityGateFailed (quality_gate env parsed b c)),
        \<lparr>reports = reports st
           @ [\<lparr>report_id = next_id st, company_id = target_company_id req,
               company_name = target_company req, verdict = fst parsed,
               total_score = snd parsed,
               quality_passed = (quality_gate env parsed b c = []),
               cache_key = Some (cache_key_of env req c),
               cache_expires_at = Some (now + cache_days req * 86400),
               generated_at = now\<rparr>],
         cache = (cache st)(cache_key_of env req c \<mapsto>
              \<lparr>report_id = next_id st, company_id = target_company_id req,
               company_name = target_company req, verdict = fst parsed,
               total_score = snd parsed,
               quality_passed = (quality_gate env parsed b c = []),
               cache_key = Some (cache_key_of env req c),
               cache_expires_at = Some (now + cache_days req * 86400),
               generated_at = now\<rparr>),
         next_id = next_id st + 1,
         provider_calls = provider_calls st + 1
              + retries (generator env (provider_calls st) req c)\<rparr>)"
  using assms by (auto simp add: run_request_def store_def Let_def)

subsection \<open>Cache lookup and idempotence\<close>

text \<open>
  C2 as stated fails in two ways. A first issuance whose report is rejected by the
  quality gate is stored but never served, so the same request, issued again ten seconds
  later and well inside the validity window, calls the provider a second time and
  returns another report. And after a report has been cached, one more posting of the
  company changes the context fingerprint and with it the cache key, so the same
  request, again inside the window, calls the provider a third time and stores a third
  report.
\<close>

theorem second_issuance_calls_provider_again:
  "\<not> bypass_cache acme_request
   \<and> run_request acme_env 0 initial_state acme_request
       = (Inl (QualityGateFailed [''verdict missing'']), acme_rejected_state)
   \<and> run_request acme_env 10 acme_rejected_state acme_request
       = (Inr acme_report, acme_cached_state)
   \<and> cache_expires_at acme_rejected_report = Some 604800
   \<and> provider_calls acme_rejected_state = 1
   \<and> provider_calls acme_cached_state = 2
   \<and> cache_expires_at acme_report = Some 604810
   \<and> provider_calls (snd (run_request acme_env_later 20 acme_cached_state acme_request)) = 3
   \<and> map report_id (reports (snd (run_request acme_env_later 20 acme_cached_state acme_request)))
       = [1, 2, 3]"
  by (simp add: scen pipeline)

text \<open>
  C2, amended. If a request with \<open>bypass_cache = false\<close> returns a report (served from
  the cache, or generated and passed by the quality gate), and the same request is
  issued again before that report's \<open>cache_expires_at\<close>, with evidence that yields the
  same cache key and with nothing else recorded under that key in between, then the
  second issuance returns the same report and leaves the state unchanged, so no provider
  call is made. \<open>lookup\<close> returns a report exactly when that report is recorded under the
  key, is quality-gate-passed and \<open>now < cache_expires_at\<close>.
\<close>

theorem cache_idempotence:
  "(\<not> bypass_cache req \<and> run_request env1 now1 st req = (Inr r1, st1)
      \<and> request_key env1 req = Inr k \<and> request_key env2 req = Inr k
      \<and> cache st2 k = cache st1 k
      \<and> cache_expires_at r1 = Some e \<and> now2 < e
      \<longrightarrow> run_request env2 now2 st2 req = (Inr r1, st2))
   \<and> (lookup entries key now = Some r \<longleftrightarrow>
        entries key = Some r \<and> quality_passed r
        \<and> (\<exists>e. cache_expires_at r = Some e \<and> now < e))"
proof -
  have idem: "run_request env2 now2 st2 req = (Inr r1, st2)"
    if nb: "\<not> bypass_cache req" and run: "run_request env1 now1 st req = (Inr r1, st1)"
      and k1: "request_key env1 req = Inr k" and k2: "request_key env2 req = Inr k"
      and same: "cache st2 k = cache st1 k"
      and e: "cache_expires_at r1 = Some e" and lt: "now2 < e"
  proof -
    from k1 obtain b1 c1 where b1: "aggregate (tables env1) (target_company req) = Inr b1"
      and c1: "context_builder env1 req b1 = Inr c1" and key1: "cache_key_of env1 req c1 = k"
      unfolding request_key_Inr by blast
    from k2 obtain b2 c2 where b2: "aggregate (tables env2) (target_company req) = Inr b2"
      and c2: "context_builder env2 req b2 = Inr c2" and key2: "cache_key_of env2 req c2 = k"
      unfolding request_key_Inr by blast
    have cached: "cache st1 k = Some r1 \<and> quality_passed r1"
    proof (cases "lookup (cache st) k now1")
      case (Some cached)
      from run_request_hit [OF b1 c1 nb Some [folded key1]] run
      have "cached = r1" "st1 = st" by simp_all
      with Some show ?thesis by (simp add: lookup_Some_iff)
    next
      case None
      then have miss: "bypass_cache req \<or> lookup (cache st) (cache_key_of env1 req c1) now1 = None"
        by (simp add: key1)
      show ?thesis
      proof (cases "outcome (generator env1 (provider_calls st) req c1)")
        case (Inl err)
        from run_request_failed [OF b1 c1 miss Inl] run show ?thesis by simp
      next
        case (Inr parsed)
        note gen = run_request_generated [OF b1 c1 miss Inr]
        show ?thesis
        proof (cases "quality_gate env1 parsed b1 c1 = []")
          case False
          with gen run show ?thesis by simp
        next
          case True
          with gen run show ?thesis by (auto simp: key1)
        qed
      qed
    qed
    with e lt same have "lookup (cache st2) (cache_key_of env2 req c2) now2 = Some r1"
      by (simp add: lookup_Some_iff key2)
    from run_request_hit [OF b2 c2 nb this] show ?thesis .
  qed
  from idem lookup_Some_iff [of entries key now r] show ?thesis by blast
qed

theorem cache_idempotence_witness:
  "run_request acme_env 10 acme_rejected_state acme_request = (Inr acme_report, acme_cached_state)
   \<and> request_key acme_env acme_request = Inr acme_cache_key
   \<and> run_request acme_env 20 acme_cached_state acme_request = (Inr acme_report, acme_cached_state)
   \<and> lookup (cache acme_cached_state) acme_cache_key 20 = Some acme_report"
proof -
  have nb: "\<not> bypass_cache acme_request" by (simp add: acme_request_def)
  have e: "cache_expires_at acme_report = Some 604810" by (simp add: acme_report_def)
  have entry: "cache acme_cached_state acme_cache_key = Some acme_report"
    by (simp add: acme_cached_state_def)
  have passed: "quality_passed acme_report" by (simp add: acme_report_def)
  from cache_idempotence [where req = acme_request and ?env1.0 = acme_env
      and ?env2.0 = acme_env and ?now1.0 = 10 and st = acme_rejected_state
      and ?r1.0 = acme_report and ?st1.0 = acme_cached_state and ?st2.0 = acme_cached_state
      and k = acme_cache_key and ?now2.0 = 20
      and e = 604810 and entries = "cache acme_cached_state" and key = acme_cache_key
      and now = 20 and r = acme_report]
    nb acme_run2 e entry passed acme_request_key
  show ?thesis by simp
qed

subsection \<open>Cache bypass\<close>






end
